theory Spec2Isabelle
  imports Complex_Main "HOL-Library.Word"
begin

section \<open>JavaScript values\<close>

text \<open>
  The two components (\<^verbatim>\<open>TicketForm\<close> and \<^verbatim>\<open>TicketResult\<close>) handle values typed
  \<^verbatim>\<open>any\<close>: whatever the server answered, parsed from JSON. They are modelled as the
  dynamically typed values they are.

  A JavaScript string is a sequence of 16-bit code units. \<open>lit\<close> embeds an ASCII literal
  of the source.
\<close>

type_synonym jsstring = "16 word list"

definition lit :: "string \<Rightarrow> jsstring" where
  "lit s = map (\<lambda>c. of_nat (of_char c)) s"

text \<open>
  A Number is an IEEE 754 binary64 value. \<open>Fin r\<close> is the finite double whose exact value
  is the rational \<open>r\<close>; the two zeros are identified (both are falsy, both print as 0, and
  the program never divides).
\<close>

datatype number = NaN | PosInf | NegInf | Fin rat

datatype jsval =
    JUndefined
  | JNull
  | JBool bool
  | JNum number
  | JStr jsstring
  | JArr "jsval list"
  | JObj "(jsstring \<times> jsval) list"

text \<open>
  An object is its list of own properties in insertion order; a lookup takes the first
  binding of a key.
\<close>

datatype exn = TypeError | ReactChildError

text \<open>ToBoolean: what \<^verbatim>\<open>if (v)\<close>, \<^verbatim>\<open>!v\<close> and \<^verbatim>\<open>v && e\<close> test.\<close>

fun truthy :: "jsval \<Rightarrow> bool" where
  "truthy JUndefined = False"
| "truthy JNull = False"
| "truthy (JBool b) = b"
| "truthy (JNum n) = (n \<noteq> NaN \<and> n \<noteq> Fin 0)"
| "truthy (JStr s) = (s \<noteq> [])"
| "truthy (JArr xs) = True"
| "truthy (JObj kvs) = True"

fun nullish :: "jsval \<Rightarrow> bool" where
  "nullish JUndefined = True"
| "nullish JNull = True"
| "nullish v = False"

text \<open>
  The property names the two components read or write. None of them is a built-in property
  of a string, an array, a number or a boolean, so reading one from such a value gives
  \<^verbatim>\<open>undefined\<close>.
\<close>

datatype field =
    Mode | Trace_id | Success | Result | Duration_ms
  | Category | Urgency | Product | Confidence | Summary | Suggested_action
  | Status | Error | Validation_errors
  | Bad_approach | Good_approach | Problems | Benefits

fun field_name :: "field \<Rightarrow> jsstring" where
  "field_name Mode = lit ''mode''"
| "field_name Trace_id = lit ''trace_id''"
| "field_name Success = lit ''success''"
| "field_name Result = lit ''result''"
| "field_name Duration_ms = lit ''duration_ms''"
| "field_name Category = lit ''category''"
| "field_name Urgency = lit ''urgency''"
| "field_name Product = lit ''product''"
| "field_name Confidence = lit ''confidence''"
| "field_name Summary = lit ''summary''"
| "field_name Suggested_action = lit ''suggested_action''"
| "field_name Status = lit ''status''"
| "field_name Error = lit ''error''"
| "field_name Validation_errors = lit ''validation_errors''"
| "field_name Bad_approach = lit ''bad_approach''"
| "field_name Good_approach = lit ''good_approach''"
| "field_name Problems = lit ''problems''"
| "field_name Benefits = lit ''benefits''"

text \<open>
  \<open>member v f\<close> is the value of \<^verbatim>\<open>v?.f\<close>, and of \<^verbatim>\<open>v.f\<close> when \<open>v\<close> is neither
  \<^verbatim>\<open>null\<close> nor \<^verbatim>\<open>undefined\<close>; \<open>dot v f\<close> is the plain read \<^verbatim>\<open>v.f\<close>, which throws
  on those two.
\<close>

fun member :: "jsval \<Rightarrow> field \<Rightarrow> jsval" where
  "member (JObj kvs) f = (case map_of kvs (field_name f) of None \<Rightarrow> JUndefined | Some v \<Rightarrow> v)"
| "member v f = JUndefined"

definition dot :: "jsval \<Rightarrow> field \<Rightarrow> exn + jsval" where
  "dot v f = (if nullish v then Inl TypeError else Inr (member v f))"

definition bind :: "exn + 'a \<Rightarrow> ('a \<Rightarrow> exn + 'b) \<Rightarrow> exn + 'b" where
  "bind m k = (case m of Inl e \<Rightarrow> Inl e | Inr x \<Rightarrow> k x)"

subsection \<open>Strings\<close>

text \<open>
  \<^verbatim>\<open>String.prototype.trim\<close> strips WhiteSpace and LineTerminator code points from both
  ends: TAB, VT, FF, SP, NBSP, ZWNBSP, the Unicode space separators, LF, CR, LS and PS.
  All of them lie in the Basic Multilingual Plane, one code unit each.
\<close>

definition isWhiteSpace :: "16 word \<Rightarrow> bool" where
  "isWhiteSpace c \<longleftrightarrow> c \<in> {0x0009, 0x000A, 0x000B, 0x000C, 0x000D, 0x0020, 0x00A0, 0x1680,
      0x2000, 0x2001, 0x2002, 0x2003, 0x2004, 0x2005, 0x2006, 0x2007, 0x2008, 0x2009, 0x200A,
      0x2028, 0x2029, 0x202F, 0x205F, 0x3000, 0xFEFF}"

definition trim :: "jsstring \<Rightarrow> jsstring" where
  "trim s = rev (dropWhile isWhiteSpace (rev (dropWhile isWhiteSpace s)))"

text \<open>The decimal digits of a natural number, as array indices and integers print.\<close>

fun dec :: "nat \<Rightarrow> jsstring" where
  "dec n = (if n < 10 then [of_nat (48 + n)] else dec (n div 10) @ [of_nat (48 + n mod 10)])"

declare dec.simps [simp del]

subsection \<open>Objects: spread and rest\<close>

text \<open>
  The own enumerable properties that \<^verbatim>\<open>{...v}\<close> and \<^verbatim>\<open>const {k, ...rest} = v\<close> copy:
  those of an object, the indexed elements of an array, the indexed characters of a string,
  none of any other value.
\<close>

fun own_props :: "jsval \<Rightarrow> (jsstring \<times> jsval) list" where
  "own_props (JObj kvs) = kvs"
| "own_props (JArr xs) = zip (map dec [0..<length xs]) xs"
| "own_props (JStr s) = zip (map dec [0..<length s]) (map (\<lambda>c. JStr [c]) s)"
| "own_props v = []"

text \<open>Writing a property replaces the binding in place or appends a new one.\<close>

fun assign :: "(jsstring \<times> jsval) list \<Rightarrow> jsstring \<Rightarrow> jsval \<Rightarrow> (jsstring \<times> jsval) list" where
  "assign [] k v = [(k, v)]"
| "assign ((k', v') # ps) k v = (if k' = k then (k, v) # ps else (k', v') # assign ps k v)"

definition omit :: "jsstring \<Rightarrow> (jsstring \<times> jsval) list \<Rightarrow> (jsstring \<times> jsval) list" where
  "omit k ps = filter (\<lambda>p. fst p \<noteq> k) ps"

subsection \<open>Numbers\<close>

text \<open>
  Rounding an exact result to binary64, to nearest with ties to even: the spacing of the
  doubles around \<open>a\<close> is \<open>2 ^ (\<lfloor>log\<^sub>2 a\<rfloor> - 52)\<close>, never below \<open>2 ^ (- 1074)\<close> (the
  subnormals), and a result of \<open>2 ^ 1024\<close> or more overflows to an infinity.
\<close>

fun bits :: "nat \<Rightarrow> nat" where
  "bits n = (if n = 0 then 0 else Suc (bits (n div 2)))"

declare bits.simps [simp del]

definition pow2 :: "int \<Rightarrow> rat" where
  "pow2 k = (if 0 \<le> k then 2 ^ nat k else 1 / 2 ^ nat (- k))"

definition floor_log2 :: "rat \<Rightarrow> int" where
  "floor_log2 a = (if 1 \<le> a then int (bits (nat \<lfloor>a\<rfloor>)) - 1
                   else - int (bits (nat (\<lceil>1 / a\<rceil> - 1))))"

definition round_half_even :: "rat \<Rightarrow> int" where
  "round_half_even x =
     (let f = \<lfloor>x\<rfloor>; d = x - of_int f
      in if d < 1 / 2 then f else if 1 / 2 < d then f + 1 else if even f then f else f + 1)"

definition round_binary64 :: "rat \<Rightarrow> number" where
  "round_binary64 r =
     (if r = 0 then Fin 0
      else let a = \<bar>r\<bar>;
               p = max (floor_log2 a - 52) (- 1074);
               v = of_int (round_half_even (a / pow2 p)) * pow2 p
           in if pow2 1024 \<le> v then (if r < 0 then NegInf else PosInf)
              else Fin (if r < 0 then - v else v))"

fun is_negative :: "number \<Rightarrow> bool" where
  "is_negative NegInf = True"
| "is_negative (Fin r) = (r < 0)"
| "is_negative n = False"

text \<open>The operator \<^verbatim>\<open>*\<close> on two Numbers.\<close>

fun js_times :: "number \<Rightarrow> number \<Rightarrow> number" where
  "js_times NaN y = NaN"
| "js_times x NaN = NaN"
| "js_times (Fin a) (Fin b) = round_binary64 (a * b)"
| "js_times x y =
     (if x = Fin 0 \<or> y = Fin 0 then NaN
      else if is_negative x \<noteq> is_negative y then NegInf else PosInf)"

text \<open>
  The built-in algorithms of the language that the components call and whose text is not in
  the repository are parameters of the model: the shortest round-trip decimal of a finite
  Number (Number::toString), the parse of a string as a numeric literal (StringToNumber),
  and the JSON text of a value other than \<^verbatim>\<open>undefined\<close> with indentation 2
  (\<^verbatim>\<open>JSON.stringify(v, null, 2)\<close>).
\<close>

record builtins =
  finite_toString :: "rat \<Rightarrow> jsstring"
  StringToNumber :: "jsstring \<Rightarrow> number"
  serialize_json :: "jsval \<Rightarrow> jsstring"

definition Number_toString :: "builtins \<Rightarrow> number \<Rightarrow> jsstring" where
  "Number_toString lib n =
     (case n of NaN \<Rightarrow> lit ''NaN'' | PosInf \<Rightarrow> lit ''Infinity'' | NegInf \<Rightarrow> lit ''-Infinity''
      | Fin r \<Rightarrow> finite_toString lib r)"

fun join_comma :: "jsstring list \<Rightarrow> jsstring" where
  "join_comma [] = []"
| "join_comma [s] = s"
| "join_comma (s # t # ss) = s @ lit '','' @ join_comma (t # ss)"

text \<open>
  ToString, as a template literal applies it. An array joins its elements with commas,
  \<^verbatim>\<open>null\<close> and \<^verbatim>\<open>undefined\<close> elements as empty strings; a plain object is
  \<^verbatim>\<open>[object Object]\<close>.
\<close>

fun ToString :: "builtins \<Rightarrow> jsval \<Rightarrow> jsstring" where
  "ToString lib JUndefined = lit ''undefined''"
| "ToString lib JNull = lit ''null''"
| "ToString lib (JBool b) = (if b then lit ''true'' else lit ''false'')"
| "ToString lib (JNum n) = Number_toString lib n"
| "ToString lib (JStr s) = s"
| "ToString lib (JArr xs) = join_comma (map (\<lambda>x. if nullish x then [] else ToString lib x) xs)"
| "ToString lib (JObj kvs) = lit ''[object Object]''"

text \<open>ToNumber, as the operator \<^verbatim>\<open>*\<close> applies it to its operands.\<close>

fun ToNumber :: "builtins \<Rightarrow> jsval \<Rightarrow> number" where
  "ToNumber lib JUndefined = NaN"
| "ToNumber lib JNull = Fin 0"
| "ToNumber lib (JBool b) = (if b then Fin 1 else Fin 0)"
| "ToNumber lib (JNum n) = n"
| "ToNumber lib (JStr s) = StringToNumber lib s"
| "ToNumber lib (JArr xs) = StringToNumber lib (ToString lib (JArr xs))"
| "ToNumber lib (JObj kvs) = NaN"

text \<open>
  \<^verbatim>\<open>Number.prototype.toFixed(0)\<close>: a value that is not finite prints as ToString does;
  the sign is split off; from \<open>10\<^sup>2\<^sup>1\<close> on the magnitude prints as ToString does; below,
  it is the integer nearest to the magnitude, the larger one of two equally near.
\<close>

definition toFixed0 :: "builtins \<Rightarrow> number \<Rightarrow> jsstring" where
  "toFixed0 lib x =
     (case x of
        Fin r \<Rightarrow>
          (if r < 0 then lit ''-'' else []) @
          (if 10 ^ 21 \<le> \<bar>r\<bar> then Number_toString lib (Fin \<bar>r\<bar>) else dec (nat \<lfloor>\<bar>r\<bar> + 1 / 2\<rfloor>))
      | n \<Rightarrow> Number_toString lib n)"

text \<open>
  \<^verbatim>\<open>JSON.stringify(v, null, 2)\<close> is \<^verbatim>\<open>undefined\<close>, not a string, for \<^verbatim>\<open>undefined\<close>.
\<close>

definition JSON_stringify :: "builtins \<Rightarrow> jsval \<Rightarrow> jsval" where
  "JSON_stringify lib v = (if v = JUndefined then JUndefined else JStr (serialize_json lib v))"

section \<open>TicketForm: submission\<close>

text \<open>
  The component keeps three pieces of state: the text of the textarea, the loading flag and
  the analysis mode, of type \<^verbatim>\<open>'good' | 'bad' | 'compare'\<close>.
\<close>

datatype mode = Good | Bad | Compare

fun mode_str :: "mode \<Rightarrow> jsstring" where
  "mode_str Good = lit ''good''"
| "mode_str Bad = lit ''bad''"
| "mode_str Compare = lit ''compare''"

record form =
  input :: jsstring
  loading :: bool
  mode :: mode

definition initial_form :: form where
  "initial_form = \<lparr>input = [], loading = False, mode = Good\<rparr>"

text \<open>
  \<^verbatim>\<open>API_URL = process.env.NEXT_PUBLIC_API_URL || 'http://localhost:8000'\<close>: the environment
  variable is a string or is not set.
\<close>

definition API_URL :: "jsstring option \<Rightarrow> jsstring" where
  "API_URL env =
     (case env of None \<Rightarrow> lit ''http://localhost:8000''
      | Some s \<Rightarrow> if truthy (JStr s) then s else lit ''http://localhost:8000'')"

text \<open>The three assignments to \<^verbatim>\<open>endpoint\<close>, in the order of the source.\<close>

definition endpoint :: "mode \<Rightarrow> jsstring" where
  "endpoint m =
     (let e = lit ''/api/ticket/analyze'';
          e = (if m = Bad then lit ''/api/ticket/analyze-bad'' else e);
          e = (if m = Compare then lit ''/api/ticket/compare'' else e)
      in e)"

text \<open>
  What a run of the handler does to the outside, in order: a call of the state setter, a
  call of \<^verbatim>\<open>axios.post(url, body)\<close>, a call of the \<^verbatim>\<open>onResult\<close> prop.
\<close>

datatype effect = SetLoading bool | AxiosPost jsstring jsval | OnResult jsval

text \<open>
  \<^verbatim>\<open>handleSubmit\<close> is an async function. \<open>handleSubmit\<close> is its run up to the
  \<^verbatim>\<open>await\<close>: the guard on the trimmed input, \<^verbatim>\<open>setLoading(true)\<close> and the request.
  It reads \<^verbatim>\<open>input\<close> and \<^verbatim>\<open>mode\<close> of the render whose button was clicked.
\<close>

definition handleSubmit :: "jsstring \<Rightarrow> form \<Rightarrow> effect list" where
  "handleSubmit api f =
     (if \<not> truthy (JStr (trim (input f))) then []
      else [SetLoading True,
            AxiosPost (api @ endpoint (mode f)) (JObj [(lit ''user_input'', JStr (input f))])])"

text \<open>
  The promise of \<^verbatim>\<open>axios.post\<close> settles: it fulfils with a response whose \<^verbatim>\<open>data\<close> is
  the parsed body, or rejects with an error object whose \<^verbatim>\<open>message\<close> is a string
  (network failure, timeout, a status outside 2xx).
\<close>

datatype outcome = Fulfilled jsval | Rejected jsstring

text \<open>\<^verbatim>\<open>{ ...response.data, mode }\<close> and \<^verbatim>\<open>{ error: error.message, mode }\<close>.\<close>

definition success_payload :: "jsval \<Rightarrow> mode \<Rightarrow> jsval" where
  "success_payload d m = JObj (assign (own_props d) (field_name Mode) (JStr (mode_str m)))"

definition error_payload :: "jsstring \<Rightarrow> mode \<Rightarrow> jsval" where
  "error_payload msg m = JObj [(field_name Error, JStr msg), (field_name Mode, JStr (mode_str m))]"

text \<open>
  The rest of the \<^verbatim>\<open>try\<close> block after the \<^verbatim>\<open>await\<close>: a rejection is thrown at the
  \<^verbatim>\<open>await\<close> (\<open>Inl\<close>), a response is handed to \<^verbatim>\<open>onResult\<close>. The mode is the one the
  closure captured when the handler started. The \<^verbatim>\<open>onResult\<close> prop is the state setter
  \<^verbatim>\<open>setResult\<close> of \<^verbatim>\<open>Home\<close>, a call of which returns normally.
\<close>

definition handleSubmit_try :: "mode \<Rightarrow> outcome \<Rightarrow> jsstring + effect list" where
  "handleSubmit_try m out =
     (case out of
        Rejected msg \<Rightarrow> Inl msg
      | Fulfilled d \<Rightarrow> Inr [OnResult (success_payload d m)])"

text \<open>
  \<open>handleSubmit_resume\<close> is the run from the \<^verbatim>\<open>await\<close> to the end: the \<^verbatim>\<open>try\<close> block, the
  \<^verbatim>\<open>catch\<close> clause for whatever it threw, then the \<^verbatim>\<open>finally\<close> clause. It returns the
  effects and the exception that leaves the handler, if one does.
\<close>

definition handleSubmit_resume :: "mode \<Rightarrow> outcome \<Rightarrow> effect list \<times> jsstring option" where
  "handleSubmit_resume m out =
     (let effs = (case handleSubmit_try m out of
                    Inr done \<Rightarrow> done
                  | Inl msg \<Rightarrow> [OnResult (error_payload msg m)])
      in (effs @ [SetLoading False], None))"

subsection \<open>The form as a transition system\<close>

text \<open>
  The submit button carries \<^verbatim>\<open>disabled={loading || !input.trim()}\<close>, and a disabled button
  delivers no click.
\<close>

definition submit_disabled :: "form \<Rightarrow> bool" where
  "submit_disabled f \<longleftrightarrow> loading f \<or> \<not> truthy (JStr (trim (input f)))"

text \<open>
  The state of a mounted form: its three state variables, the POST requests that have not
  settled yet, each with the mode its handler captured, every request ever sent, and the
  values handed to \<^verbatim>\<open>onResult\<close>.
\<close>

record form_sys =
  form :: form
  in_flight :: "(jsstring \<times> jsval \<times> mode) list"
  sent :: "(jsstring \<times> jsval) list"
  delivered :: "jsval list"

definition initial_sys :: form_sys where
  "initial_sys = \<lparr>form = initial_form, in_flight = [], sent = [], delivered = []\<rparr>"

fun perform :: "mode \<Rightarrow> form_sys \<Rightarrow> effect \<Rightarrow> form_sys" where
  "perform m s (SetLoading b) = s\<lparr>form := (form s)\<lparr>loading := b\<rparr>\<rparr>"
| "perform m s (AxiosPost url body) =
     s\<lparr>in_flight := in_flight s @ [(url, body, m)], sent := sent s @ [(url, body)]\<rparr>"
| "perform m s (OnResult v) = s\<lparr>delivered := delivered s @ [v]\<rparr>"

text \<open>
  What happens to a form: the user edits the text (the textarea's \<^verbatim>\<open>onChange\<close>, or an
  example button, both call \<^verbatim>\<open>setInput\<close>), picks a mode, clicks the submit button, or the
  \<open>i\<close>-th request in flight settles. Each is handled to its end before the next one, and
  the state setters have taken effect by then.
\<close>

datatype action = SetInput jsstring | SetMode mode | ClickSubmit | Settle nat outcome

fun step :: "jsstring \<Rightarrow> form_sys \<Rightarrow> action \<Rightarrow> form_sys" where
  "step api s (SetInput x) = s\<lparr>form := (form s)\<lparr>input := x\<rparr>\<rparr>"
| "step api s (SetMode m) = s\<lparr>form := (form s)\<lparr>mode := m\<rparr>\<rparr>"
| "step api s ClickSubmit =
     (if submit_disabled (form s) then s
      else foldl (perform (mode (form s))) s (handleSubmit api (form s)))"
| "step api s (Settle i out) =
     (if i < length (in_flight s)
      then (case in_flight s ! i of (url, body, m) \<Rightarrow>
              foldl (perform m)
                (s\<lparr>in_flight := take i (in_flight s) @ drop (Suc i) (in_flight s)\<rparr>)
                (fst (handleSubmit_resume m out)))
      else s)"

definition run :: "jsstring \<Rightarrow> action list \<Rightarrow> form_sys" where
  "run api acts = foldl (step api) initial_sys acts"

section \<open>TicketResult: rendering\<close>

text \<open>
  The component returns a tree of elements. The model keeps the parts of it that depend on
  the payload: each \<^verbatim>\<open>{expression}\<close> of the JSX is a field holding the value placed
  there, and the one computed class name is kept as well. The fixed markup is left out.

  \<^verbatim>\<open>{x && <jsx/>}\<close> places the JSX when \<open>x\<close> is truthy and the falsy \<open>x\<close> itself
  otherwise.
\<close>

datatype 'a guarded = Shown 'a | Falsy jsval

text \<open>
  A panel of the comparison: the \<^verbatim>\<open><pre>\<close> with the JSON text of the approach's result,
  and the list with one \<^verbatim>\<open><li>\<close> per problem or benefit.
\<close>

record panel =
  p_json :: jsval
  p_items :: "jsval list guarded"

text \<open>
  The success view: the heading (the unreliable one when \<^verbatim>\<open>mode === 'bad'\<close>), the
  duration, the four cells, the summary, the suggested action, the trace block (the id and
  the link's \<^verbatim>\<open>href\<close>) and the raw JSON.
\<close>

record success_panel =
  s_unreliable :: bool
  s_duration :: jsval
  s_category :: jsval
  s_urgency_class :: string
  s_urgency :: jsval
  s_product :: jsval
  s_confidence :: jsstring
  s_summary :: jsval
  s_suggested :: "jsval guarded"
  s_trace :: "(jsval \<times> jsstring) guarded"
  s_raw :: jsval

record failure_panel =
  f_status :: jsval
  f_error :: jsval
  f_validation :: "jsval list guarded"

datatype view =
    NoView
  | CompareView panel panel
  | SuccessView success_panel
  | FailureView failure_panel

text \<open>
  \<^verbatim>\<open>v.map((x, i) => <li key={i}>{x}</li>)\<close>: one item per element of an array, in order.
  On any other truthy value \<^verbatim>\<open>v.map\<close> is not a function and the call throws.
\<close>

definition map_li :: "jsval \<Rightarrow> exn + jsval list" where
  "map_li v = (case v of JArr xs \<Rightarrow> Inr xs | _ \<Rightarrow> Inl TypeError)"

text \<open>
  The two panels, as the source writes them out. \<open>data\<close> is the rest object of the
  destructuring, so \<^verbatim>\<open>data.bad_approach\<close> itself never throws.
\<close>

definition bad_panel :: "builtins \<Rightarrow> jsval \<Rightarrow> exn + panel" where
  "bad_panel lib data =
     (let pre = JSON_stringify lib (member (member data Bad_approach) Result);
          guard = member (member data Bad_approach) Problems
      in if truthy guard
         then bind (dot (member data Bad_approach) Problems) (\<lambda>ps.
              bind (map_li ps) (\<lambda>items.
              Inr \<lparr>p_json = pre, p_items = Shown items\<rparr>))
         else Inr \<lparr>p_json = pre, p_items = Falsy guard\<rparr>)"

definition good_panel :: "builtins \<Rightarrow> jsval \<Rightarrow> exn + panel" where
  "good_panel lib data =
     (let pre = JSON_stringify lib (member (member data Good_approach) Result);
          guard = member (member data Good_approach) Benefits
      in if truthy guard
         then bind (dot (member data Good_approach) Benefits) (\<lambda>bs.
              bind (map_li bs) (\<lambda>items.
              Inr \<lparr>p_json = pre, p_items = Shown items\<rparr>))
         else Inr \<lparr>p_json = pre, p_items = Falsy guard\<rparr>)"

definition compare_view :: "builtins \<Rightarrow> jsval \<Rightarrow> exn + view" where
  "compare_view lib data =
     bind (bad_panel lib data) (\<lambda>b.
     bind (good_panel lib data) (\<lambda>g.
     Inr (CompareView b g)))"

text \<open>The class of the urgency cell: a chain of three comparisons with a default.\<close>

definition urgency_class :: "jsval \<Rightarrow> string" where
  "urgency_class u =
     (if u = JStr (lit ''P0'') then ''text-red-600''
      else if u = JStr (lit ''P1'') then ''text-orange-600''
      else if u = JStr (lit ''P2'') then ''text-yellow-600''
      else ''text-green-600'')"

text \<open>\<^verbatim>\<open>(data.result.confidence * 100).toFixed(0)\<close>, the text before the percent sign.\<close>

definition confidence_text :: "builtins \<Rightarrow> jsval \<Rightarrow> jsstring" where
  "confidence_text lib c = toFixed0 lib (js_times (ToNumber lib c) (Fin 100))"

text \<open>
  Every \<^verbatim>\<open>data.result.x\<close> of the success view reads a property of the same
  \<^verbatim>\<open>data.result\<close> and throws when that is \<^verbatim>\<open>null\<close> or \<^verbatim>\<open>undefined\<close>.
\<close>

definition success_view :: "builtins \<Rightarrow> jsval \<Rightarrow> jsval \<Rightarrow> exn + view" where
  "success_view lib md data =
     (let r = member data Result; tid = member data Trace_id
      in if nullish r then Inl TypeError
         else Inr (SuccessView
           \<lparr>s_unreliable = (md = JStr (lit ''bad'')),
            s_duration = member data Duration_ms,
            s_category = member r Category,
            s_urgency_class = urgency_class (member r Urgency),
            s_urgency = member r Urgency,
            s_product = member r Product,
            s_confidence = confidence_text lib (member r Confidence),
            s_summary = member r Summary,
            s_suggested =
              (if truthy (member r Suggested_action) then Shown (member r Suggested_action)
               else Falsy (member r Suggested_action)),
            s_trace =
              (if truthy tid
               then Shown (tid, lit ''https://cloud.langfuse.com/trace/'' @ ToString lib tid)
               else Falsy tid),
            s_raw = JSON_stringify lib r\<rparr>))"

definition failure_view :: "builtins \<Rightarrow> jsval \<Rightarrow> exn + view" where
  "failure_view lib data =
     (let guard = member data Validation_errors
      in if truthy guard
         then bind (map_li guard) (\<lambda>items.
              Inr (FailureView \<lparr>f_status = member data Status, f_error = member data Error,
                                 f_validation = Shown items\<rparr>))
         else Inr (FailureView \<lparr>f_status = member data Status, f_error = member data Error,
                                 f_validation = Falsy guard\<rparr>))"

text \<open>
  The body of the component after its hooks: \<^verbatim>\<open>if (!result) return null\<close>, the
  destructuring \<^verbatim>\<open>const { mode, ...data } = result\<close>, and the three branches. The second
  argument is the state variable \<^verbatim>\<open>trace\<close>, which the body never reads.
\<close>

definition rest_of :: "jsval \<Rightarrow> jsval" where
  "rest_of result = JObj (omit (field_name Mode) (own_props result))"

definition TicketResult :: "builtins \<Rightarrow> jsval \<Rightarrow> jsval \<Rightarrow> exn + view" where
  "TicketResult lib result tr =
     (if \<not> truthy result then Inr NoView
      else let md = member result Mode;
               data = rest_of result
           in if md = JStr (lit ''compare'') then compare_view lib data
              else if truthy (member data Success) \<and> truthy (member data Result)
                   then success_view lib md data
              else failure_view lib data)"

subsection \<open>What React accepts as a child\<close>

text \<open>
  React renders a string or a number as text, nothing for a boolean, \<^verbatim>\<open>null\<close> or
  \<^verbatim>\<open>undefined\<close>, an array element by element, and throws on a plain object
  (\<^emph>\<open>Objects are not valid as a React child\<close>).
\<close>

fun valid_child :: "jsval \<Rightarrow> bool" where
  "valid_child (JObj kvs) = False"
| "valid_child (JArr xs) = list_all valid_child xs"
| "valid_child v = True"

fun renders_nothing :: "jsval \<Rightarrow> bool" where
  "renders_nothing JUndefined = True"
| "renders_nothing JNull = True"
| "renders_nothing (JBool b) = True"
| "renders_nothing v = False"

fun items_children :: "jsval list guarded \<Rightarrow> jsval list" where
  "items_children (Shown xs) = xs"
| "items_children (Falsy v) = [v]"

fun children :: "view \<Rightarrow> jsval list" where
  "children NoView = []"
| "children (CompareView b g) =
     p_json b # items_children (p_items b) @ p_json g # items_children (p_items g)"
| "children (SuccessView s) =
     [s_duration s, s_category s, s_urgency s, s_product s, JStr (s_confidence s), s_summary s,
      (case s_suggested s of Shown v \<Rightarrow> v | Falsy v \<Rightarrow> v),
      (case s_trace s of Shown (tid, href) \<Rightarrow> tid | Falsy v \<Rightarrow> v),
      s_raw s]"
| "children (FailureView f) = f_status f # f_error f # items_children (f_validation f)"

definition renderable :: "view \<Rightarrow> bool" where
  "renderable v = list_all valid_child (children v)"

text \<open>A render that React commits: the body returned and every child is acceptable.\<close>

definition commit :: "builtins \<Rightarrow> jsval \<Rightarrow> jsval \<Rightarrow> exn + view" where
  "commit lib result tr =
     bind (TicketResult lib result tr) (\<lambda>v. if renderable v then Inr v else Inl ReactChildError)"

section \<open>TicketResult: the trace fetch\<close>

text \<open>
  The effect \<^verbatim>\<open>useEffect(() => { if (result?.trace_id) axios.get(...) }, [result?.trace_id])\<close>.
  \<open>fetch_trace\<close> is its body: the URLs it requests. Inside the guard \<^verbatim>\<open>result\<close> is an
  object, so the plain read \<^verbatim>\<open>result.trace_id\<close> of the template literal does not throw.
\<close>

definition effect_dep :: "jsval \<Rightarrow> jsval" where
  "effect_dep result = member result Trace_id"

definition fetch_trace :: "jsstring \<Rightarrow> builtins \<Rightarrow> jsval \<Rightarrow> jsstring list" where
  "fetch_trace api lib result =
     (if truthy (member result Trace_id)
      then [api @ lit ''/api/trace/'' @ ToString lib (member result Trace_id)]
      else [])"

text \<open>
  React runs an effect after the first committed render and after each later one whose
  dependency differs from the previous render's by \<^verbatim>\<open>Object.is\<close>. The payloads are
  parsed afresh from each response, so a dependency that is an array or an object is a new
  one whenever the payload is new; primitives compare by value.
\<close>

fun primitive :: "jsval \<Rightarrow> bool" where
  "primitive (JArr xs) = False"
| "primitive (JObj kvs) = False"
| "primitive v = True"

definition same_dep :: "jsval \<Rightarrow> jsval \<Rightarrow> bool" where
  "same_dep old new \<longleftrightarrow> primitive new \<and> old = new"

text \<open>
  A mounted \<^verbatim>\<open>TicketResult\<close>: its prop, the dependency of its last render, its state
  variable \<^verbatim>\<open>trace\<close>, every GET it has requested, the GETs that have not settled, and the
  lines written by \<^verbatim>\<open>console.error\<close>.
\<close>

record result_sys =
  props :: jsval
  last_dep :: jsval
  trace_state :: jsval
  requested :: "jsstring list"
  awaiting :: "jsstring list"
  console :: "jsstring list"

text \<open>The first render of the component, with the prop \<open>result\<close>.\<close>

definition mount :: "jsstring \<Rightarrow> builtins \<Rightarrow> jsval \<Rightarrow> exn + result_sys" where
  "mount api lib result =
     bind (commit lib result JNull) (\<lambda>v.
     Inr \<lparr>props = result, last_dep = effect_dep result, trace_state = JNull,
          requested = fetch_trace api lib result, awaiting = fetch_trace api lib result,
          console = []\<rparr>)"

text \<open>
  What happens to a mounted component: the parent renders it with a new payload
  (\<^verbatim>\<open>setResult\<close> in \<^verbatim>\<open>Home\<close>), it renders again with the prop it has, the \<open>i\<close>-th GET
  awaited fulfils (\<^verbatim>\<open>setTrace(res.data)\<close> and a render), or it rejects
  (\<^verbatim>\<open>console.error\<close>). A render that throws takes the component down.
\<close>

datatype result_action =
    NewResult jsval
  | Rerender
  | TraceFulfilled nat jsval
  | TraceRejected nat jsstring

fun rstep :: "jsstring \<Rightarrow> builtins \<Rightarrow> result_sys \<Rightarrow> result_action \<Rightarrow> exn + result_sys" where
  "rstep api lib s (NewResult r) =
     bind (commit lib r (trace_state s)) (\<lambda>v.
     let issued = (if same_dep (last_dep s) (effect_dep r) then [] else fetch_trace api lib r)
     in Inr (s\<lparr>props := r, last_dep := effect_dep r,
               requested := requested s @ issued, awaiting := awaiting s @ issued\<rparr>))"
| "rstep api lib s Rerender =
     bind (commit lib (props s) (trace_state s)) (\<lambda>v. Inr s)"
| "rstep api lib s (TraceFulfilled i d) =
     (if i < length (awaiting s)
      then bind (commit lib (props s) d) (\<lambda>v.
           Inr (s\<lparr>trace_state := d,
                   awaiting := take i (awaiting s) @ drop (Suc i) (awaiting s)\<rparr>))
      else Inr s)"
| "rstep api lib s (TraceRejected i msg) =
     (if i < length (awaiting s)
      then Inr (s\<lparr>awaiting := take i (awaiting s) @ drop (Suc i) (awaiting s),
                   console := console s @ [msg]\<rparr>)
      else Inr s)"

fun rrun :: "jsstring \<Rightarrow> builtins \<Rightarrow> exn + result_sys \<Rightarrow> result_action list \<Rightarrow> exn + result_sys" where
  "rrun api lib st [] = st"
| "rrun api lib st (a # as) = rrun api lib (bind st (\<lambda>s. rstep api lib s a)) as"

section \<open>Notions used in the statements\<close>

fun is_post :: "effect \<Rightarrow> bool" where
  "is_post (AxiosPost url body) = True"
| "is_post e = False"

text \<open>
  The state of the form is consistent when at most one request is in flight and the
  loading flag is set exactly while one is.
\<close>

definition consistent :: "form_sys \<Rightarrow> bool" where
  "consistent s \<longleftrightarrow> length (in_flight s) \<le> 1 \<and> (loading (form s) \<longleftrightarrow> in_flight s \<noteq> [])"



text \<open>
  The shape the data model gives \<^verbatim>\<open>problems\<close>, \<^verbatim>\<open>benefits\<close> and
  \<^verbatim>\<open>validation_errors\<close>: not there (or otherwise falsy), or a list of values that can be
  shown, such as strings.
\<close>

fun list_or_absent :: "jsval \<Rightarrow> bool" where
  "list_or_absent (JArr xs) = list_all valid_child xs"
| "list_or_absent v = (\<not> truthy v)"


text \<open>The list of a panel for a value of that shape: its items, or the falsy value itself.\<close>

fun items_of :: "jsval \<Rightarrow> jsval list guarded" where
  "items_of (JArr xs) = Shown xs"
| "items_of v = Falsy v"

text \<open>
  A value on which the guarded \<^verbatim>\<open>.map\<close> does not throw: an array, or a falsy value, which
  the guard stops.
\<close>

fun mappable :: "jsval \<Rightarrow> bool" where
  "mappable (JArr xs) = True"
| "mappable v = (\<not> truthy v)"

section \<open>Example payloads\<close>


definition example_failure :: jsval where
  "example_failure =
     JObj [(lit ''success'', JBool False),
           (lit ''status'', JStr (lit ''validation_failed'')),
           (lit ''error'', JStr (lit ''missing field'')),
           (lit ''validation_errors'', JArr [JStr (lit ''category required'')]),
           (lit ''mode'', JStr (lit ''bad''))]"

text \<open>A comparison whose bad approach is missing altogether.\<close>

definition example_compare :: jsval where
  "example_compare =
     JObj [(lit ''good_approach'',
            JObj [(lit ''result'', JObj [(lit ''category'', JStr (lit ''COMPLAINT''))]),
                  (lit ''benefits'', JArr [JStr (lit ''typed'')])]),
           (lit ''mode'', JStr (lit ''compare''))]"

text \<open>Payloads that carry a trace id: a failure with a given id, and a comparison.\<close>

definition traced_failure :: "string \<Rightarrow> jsval" where
  "traced_failure t =
     JObj [(lit ''success'', JBool False),
           (lit ''trace_id'', JStr (lit t)),
           (lit ''mode'', JStr (lit ''good''))]"


text \<open>A failure whose validation errors are objects, not strings.\<close>

definition example_object_errors :: jsval where
  "example_object_errors =
     JObj [(lit ''success'', JBool False),
           (lit ''status'', JStr (lit ''validation_failed'')),
           (lit ''error'', JStr (lit ''missing field'')),
           (lit ''validation_errors'', JArr [JObj [(lit ''msg'', JStr (lit ''category required''))]]),
           (lit ''mode'', JStr (lit ''good''))]"

section \<open>Auxiliary facts\<close>

lemma bind_Inr [simp]: "bind (Inr x) k = k x"
  by (simp add: bind_def)

lemma bind_Inl [simp]: "bind (Inl e) k = Inl e"
  by (simp add: bind_def)

lemma API_URL_default: "API_URL None = lit ''http://localhost:8000''"
  by (simp add: API_URL_def)

lemma endpoint_cases:
  "endpoint Good = lit ''/api/ticket/analyze''"
  "endpoint Bad = lit ''/api/ticket/analyze-bad''"
  "endpoint Compare = lit ''/api/ticket/compare''"
  by (simp_all add: endpoint_def)

lemma field_name_Mode: "field_name f = lit ''mode'' \<longleftrightarrow> f = Mode"
  by (cases f) (simp_all add: lit_def)

lemma map_of_omit: "map_of (omit k ps) k' = (if k' = k then None else map_of ps k')"
  by (induction ps) (auto simp: omit_def)

lemma member_rest_of:
  "member (rest_of (JObj kvs)) f = (if f = Mode then JUndefined else member (JObj kvs) f)"
  by (simp add: rest_of_def map_of_omit field_name_Mode)

lemma truthy_not_nullish: "truthy v \<Longrightarrow> \<not> nullish v"
  by (cases v) simp_all

lemma member_nullish: "nullish v \<Longrightarrow> member v f = JUndefined"
  by (cases v) simp_all

section \<open>Submission\<close>

text \<open>
  Claim C1. For every input text that is not empty after trimming and every mode, a run of
  the submission handler sends exactly one POST request, to the path of the mode
  (good: \<^verbatim>\<open>/api/ticket/analyze\<close>, bad: \<^verbatim>\<open>/api/ticket/analyze-bad\<close>, compare:
  \<^verbatim>\<open>/api/ticket/compare\<close>) under the base URL, and the body of the request is the object
  whose only field \<^verbatim>\<open>user_input\<close> is the text as typed.
\<close>

theorem submit_issues_one_post:
  assumes "trim (input f) \<noteq> []"
  shows "handleSubmit api f =
           [SetLoading True,
            AxiosPost (api @ (case mode f of
                                Good \<Rightarrow> lit ''/api/ticket/analyze''
                              | Bad \<Rightarrow> lit ''/api/ticket/analyze-bad''
                              | Compare \<Rightarrow> lit ''/api/ticket/compare''))
                      (JObj [(lit ''user_input'', JStr (input f))])]
         \<and> length (filter is_post (handleSubmit api f)) = 1"
  using assms by (cases "mode f") (simp_all add: handleSubmit_def endpoint_cases)

theorem submit_issues_one_post_witness:
  "trim (input \<lparr>input = lit '' refund please '', loading = False, mode = Bad\<rparr>) \<noteq> []
   \<and> handleSubmit (API_URL None) \<lparr>input = lit '' refund please '', loading = False, mode = Bad\<rparr> =
       [SetLoading True,
        AxiosPost (lit ''http://localhost:8000/api/ticket/analyze-bad'')
                  (JObj [(lit ''user_input'', JStr (lit '' refund please ''))])]"
proof -
  let ?f = "\<lparr>input = lit '' refund please '', loading = False, mode = Bad\<rparr>"
  have h: "trim (input ?f) \<noteq> []"
    by (simp add: trim_def lit_def isWhiteSpace_def)
  from submit_issues_one_post [OF h, of "API_URL None"] h show ?thesis
    by (simp add: API_URL_def lit_def)
qed

text \<open>
  Claim C9. When the input is empty or only whitespace, submitting does nothing: the handler
  performs no effect at all (no request, no call of \<^verbatim>\<open>onResult\<close>, no state setter), and a
  click on the button leaves the state of the form as it was.
\<close>

theorem blank_submit_is_noop:
  assumes "trim (input (form s)) = []"
  shows "handleSubmit api (form s) = [] \<and> step api s ClickSubmit = s"
  using assms by (simp add: handleSubmit_def submit_disabled_def)

theorem blank_submit_is_noop_witness:
  "trim (input (form (step (API_URL None) initial_sys (SetInput [0x20, 0x3000, 0x0A])))) = []
   \<and> handleSubmit (API_URL None)
        (form (step (API_URL None) initial_sys (SetInput [0x20, 0x3000, 0x0A]))) = []
   \<and> step (API_URL None) (step (API_URL None) initial_sys (SetInput [0x20, 0x3000, 0x0A]))
        ClickSubmit
       = step (API_URL None) initial_sys (SetInput [0x20, 0x3000, 0x0A])"
proof -
  let ?s = "step (API_URL None) initial_sys (SetInput [0x20, 0x3000, 0x0A])"
  have h: "trim (input (form ?s)) = []"
    by (simp add: trim_def isWhiteSpace_def)
  from blank_submit_is_noop [OF h] h show ?thesis by simp
qed

lemma member_error_payload:
  "member (error_payload msg m) Error = JStr msg"
  "member (error_payload msg m) Mode = JStr (mode_str m)"
  by (simp_all add: error_payload_def lit_def)

text \<open>
  Claim C4. When the POST fails, with whatever message, the handler builds the object
  \<^verbatim>\<open>{ error: message, mode }\<close> with the mode it was started with, hands it to the same
  \<^verbatim>\<open>onResult\<close> callback a response goes to, clears the loading flag, and lets no exception
  out. In the running form the object delivered carries the mode captured at the click.
\<close>

theorem transport_error_becomes_result:
  "handleSubmit_resume m (Rejected msg) = ([OnResult (error_payload msg m), SetLoading False], None)
   \<and> member (error_payload msg m) Error = JStr msg
   \<and> member (error_payload msg m) Mode = JStr (mode_str m)
   \<and> handleSubmit_resume m (Fulfilled d) = ([OnResult (success_payload d m), SetLoading False], None)
   \<and> delivered (step api (s\<lparr>in_flight := [(url, body, m)]\<rparr>) (Settle 0 (Rejected msg)))
       = delivered s @ [error_payload msg m]"
  by (simp add: handleSubmit_resume_def handleSubmit_try_def member_error_payload)

theorem transport_error_becomes_result_witness:
  "handleSubmit_resume Compare (Rejected (lit ''Network Error'')) =
     ([OnResult (JObj [(lit ''error'', JStr (lit ''Network Error'')),
                       (lit ''mode'', JStr (lit ''compare''))]),
       SetLoading False], None)"
  using transport_error_becomes_result
          [where m = Compare and msg = "lit ''Network Error''" and d = JNull
             and api = "API_URL None" and s = initial_sys and url = "[]" and body = JNull]
  by (simp add: error_payload_def)

text \<open>
  The handler does not look at the loading flag. What keeps a second request from being sent
  while one is in flight is the disabled button, through which alone the handler is called.
\<close>

lemma handleSubmit_ignores_loading: "handleSubmit api (f\<lparr>loading := b\<rparr>) = handleSubmit api f"
  by (simp add: handleSubmit_def)

lemma consistent_initial: "consistent initial_sys"
  by (simp add: consistent_def initial_sys_def initial_form_def)

lemma resume_effects:
  "fst (handleSubmit_resume m out) =
     [OnResult (case out of Fulfilled d \<Rightarrow> success_payload d m | Rejected msg \<Rightarrow> error_payload msg m),
      SetLoading False]"
  by (cases out) (simp_all add: handleSubmit_resume_def handleSubmit_try_def)

lemma consistent_step:
  assumes "consistent s"
  shows "consistent (step api s a)"
proof (cases a)
  case (SetInput x)
  with assms show ?thesis by (simp add: consistent_def)
next
  case (SetMode m)
  with assms show ?thesis by (simp add: consistent_def)
next
  case ClickSubmit
  show ?thesis
  proof (cases "submit_disabled (form s)")
    case True
    with assms ClickSubmit show ?thesis by simp
  next
    case False
    then have "\<not> loading (form s)" and "truthy (JStr (trim (input (form s))))"
      by (simp_all add: submit_disabled_def)
    moreover from this assms have "in_flight s = []"
      by (simp add: consistent_def)
    ultimately show ?thesis
      using ClickSubmit False by (simp add: consistent_def handleSubmit_def)
  qed
next
  case (Settle i out)
  show ?thesis
  proof (cases "i < length (in_flight s)")
    case False
    with assms Settle show ?thesis by simp
  next
    case True
    with assms obtain x where x: "in_flight s = [x]" and i: "i = 0"
      by (cases "in_flight s") (auto simp: consistent_def)
    obtain url body m where "x = (url, body, m)"
      by (cases x)
    with x i Settle show ?thesis
      by (simp add: consistent_def resume_effects)
  qed
qed

lemma consistent_foldl: "consistent s \<Longrightarrow> consistent (foldl (step api) s acts)"
  by (induction acts arbitrary: s) (simp_all add: consistent_step)

lemma consistent_run: "consistent (run api acts)"
  by (simp add: run_def consistent_foldl consistent_initial)

text \<open>
  Claim C3. While a request is in flight the button is disabled, so submitting again sends
  nothing: after every sequence of user actions and settled requests, starting from the
  mounted form, at most one request is in flight, and whenever one is, a click on the submit
  button changes nothing.
\<close>

theorem at_most_one_request_in_flight:
  "length (in_flight (run api acts)) \<le> 1
   \<and> (if in_flight (run api acts) = [] then True
      else step api (run api acts) ClickSubmit = run api acts)"
proof -
  have c: "consistent (run api acts)" by (rule consistent_run)
  then have "length (in_flight (run api acts)) \<le> 1"
    by (simp add: consistent_def)
  moreover have "step api (run api acts) ClickSubmit = run api acts"
    if "in_flight (run api acts) \<noteq> []"
    using c that by (simp add: consistent_def submit_disabled_def)
  ultimately show ?thesis by simp
qed

theorem at_most_one_request_in_flight_witness:
  "in_flight (run (API_URL None)
                [SetInput (lit ''help''), ClickSubmit, ClickSubmit, SetMode Bad, ClickSubmit])
     = [(lit ''http://localhost:8000/api/ticket/analyze'',
         JObj [(lit ''user_input'', JStr (lit ''help''))], Good)]
   \<and> sent (run (API_URL None)
                [SetInput (lit ''help''), ClickSubmit, ClickSubmit, SetMode Bad, ClickSubmit])
     = [(lit ''http://localhost:8000/api/ticket/analyze'',
         JObj [(lit ''user_input'', JStr (lit ''help''))])]
   \<and> length (in_flight (run (API_URL None)
                [SetInput (lit ''help''), ClickSubmit, ClickSubmit, SetMode Bad, ClickSubmit])) \<le> 1"
proof -
  let ?acts = "[SetInput (lit ''help''), ClickSubmit, ClickSubmit, SetMode Bad, ClickSubmit]"
  have t: "trim (lit ''help'') = lit ''help''"
    by (simp add: trim_def lit_def isWhiteSpace_def)
  have n: "lit ''help'' \<noteq> []"
    by (simp add: lit_def)
  have "run (API_URL None) ?acts =
          \<lparr>form = \<lparr>input = lit ''help'', loading = True, mode = Bad\<rparr>,
           in_flight = [(lit ''http://localhost:8000/api/ticket/analyze'',
                         JObj [(lit ''user_input'', JStr (lit ''help''))], Good)],
           sent = [(lit ''http://localhost:8000/api/ticket/analyze'',
                    JObj [(lit ''user_input'', JStr (lit ''help''))])],
           delivered = []\<rparr>"
    by (simp add: run_def initial_sys_def initial_form_def submit_disabled_def handleSubmit_def
          t n endpoint_cases API_URL_default)
       (simp add: lit_def)
  with at_most_one_request_in_flight [of "API_URL None" ?acts] show ?thesis
    by simp
qed

section \<open>Rendering\<close>

subsection \<open>The comparison\<close>

lemma list_or_absent_items:
  "list_or_absent v \<Longrightarrow> list_all valid_child (items_children (items_of v))"
  by (cases v) (auto split: if_splits)

lemma bad_panel_typed:
  assumes "list_or_absent (member (member d Bad_approach) Problems)"
  shows "bad_panel lib d =
           Inr \<lparr>p_json = JSON_stringify lib (member (member d Bad_approach) Result),
                p_items = items_of (member (member d Bad_approach) Problems)\<rparr>"
proof (cases "truthy (member (member d Bad_approach) Problems)")
  case True
  with assms obtain xs where xs: "member (member d Bad_approach) Problems = JArr xs"
    by (cases "member (member d Bad_approach) Problems") simp_all
  then have "\<not> nullish (member d Bad_approach)"
    by (cases "member d Bad_approach") simp_all
  with xs show ?thesis
    by (simp add: bad_panel_def Let_def dot_def map_li_def)
next
  case False
  then have "items_of (member (member d Bad_approach) Problems)
               = Falsy (member (member d Bad_approach) Problems)"
    by (cases "member (member d Bad_approach) Problems") simp_all
  with False show ?thesis
    by (simp add: bad_panel_def Let_def)
qed

lemma good_panel_typed:
  assumes "list_or_absent (member (member d Good_approach) Benefits)"
  shows "good_panel lib d =
           Inr \<lparr>p_json = JSON_stringify lib (member (member d Good_approach) Result),
                p_items = items_of (member (member d Good_approach) Benefits)\<rparr>"
proof (cases "truthy (member (member d Good_approach) Benefits)")
  case True
  with assms obtain xs where xs: "member (member d Good_approach) Benefits = JArr xs"
    by (cases "member (member d Good_approach) Benefits") simp_all
  then have "\<not> nullish (member d Good_approach)"
    by (cases "member d Good_approach") simp_all
  with xs show ?thesis
    by (simp add: good_panel_def Let_def dot_def map_li_def)
next
  case False
  then have "items_of (member (member d Good_approach) Benefits)
               = Falsy (member (member d Good_approach) Benefits)"
    by (cases "member (member d Good_approach) Benefits") simp_all
  with False show ?thesis
    by (simp add: good_panel_def Let_def)
qed

lemma valid_JSON_stringify: "valid_child (JSON_stringify lib v)"
  by (simp add: JSON_stringify_def)

text \<open>
  Outside the data model the list is not protected: a \<^verbatim>\<open>problems\<close> that is a non-empty
  string passes the guard and \<^verbatim>\<open>.map\<close> throws.
\<close>

lemma bad_panel_untyped_throws:
  "bad_panel lib (JObj [(lit ''bad_approach'', JObj [(lit ''problems'', JStr (lit ''x''))])])
     = Inl TypeError"
  by (simp add: bad_panel_def dot_def map_li_def lit_def)

text \<open>
  Claim C5. For every payload whose mode is \<^verbatim>\<open>'compare'\<close>, with \<^verbatim>\<open>problems\<close> and
  \<^verbatim>\<open>benefits\<close> as the data model has them (missing, or a list of displayable entries),
  the renderer returns both panels and React accepts them, whatever else is missing: each
  panel holds the JSON text of the approach's \<^verbatim>\<open>result\<close> and the items of its list. When
  an approach is missing altogether, or its \<^verbatim>\<open>result\<close> or list is, the JSON text and the
  list are \<^verbatim>\<open>undefined\<close>, which renders as nothing.
\<close>

theorem compare_renders_two_panels:
  assumes "member (JObj kvs) Mode = JStr (lit ''compare'')"
    and "list_or_absent (member (member (JObj kvs) Bad_approach) Problems)"
    and "list_or_absent (member (member (JObj kvs) Good_approach) Benefits)"
  shows "commit lib (JObj kvs) tr =
           Inr (CompareView
             \<lparr>p_json = JSON_stringify lib (member (member (JObj kvs) Bad_approach) Result),
              p_items = items_of (member (member (JObj kvs) Bad_approach) Problems)\<rparr>
             \<lparr>p_json = JSON_stringify lib (member (member (JObj kvs) Good_approach) Result),
              p_items = items_of (member (member (JObj kvs) Good_approach) Benefits)\<rparr>)
         \<and> TicketResult lib (JObj kvs) tr = commit lib (JObj kvs) tr
         \<and> (if nullish (member (JObj kvs) Bad_approach)
            then JSON_stringify lib (member (member (JObj kvs) Bad_approach) Result) = JUndefined
               \<and> items_of (member (member (JObj kvs) Bad_approach) Problems) = Falsy JUndefined
            else True)
         \<and> (if nullish (member (JObj kvs) Good_approach)
            then JSON_stringify lib (member (member (JObj kvs) Good_approach) Result) = JUndefined
               \<and> items_of (member (member (JObj kvs) Good_approach) Benefits) = Falsy JUndefined
            else True)
         \<and> JSON_stringify lib JUndefined = JUndefined
         \<and> items_of JUndefined = Falsy JUndefined
         \<and> renders_nothing JUndefined"
proof -
  let ?p = "JObj kvs"
  let ?b = "\<lparr>p_json = JSON_stringify lib (member (member ?p Bad_approach) Result),
              p_items = items_of (member (member ?p Bad_approach) Problems)\<rparr>"
  let ?g = "\<lparr>p_json = JSON_stringify lib (member (member ?p Good_approach) Result),
              p_items = items_of (member (member ?p Good_approach) Benefits)\<rparr>"
  have b: "bad_panel lib (rest_of ?p) = Inr ?b"
    using bad_panel_typed [of "rest_of ?p" lib] assms(2) by (simp add: member_rest_of)
  have g: "good_panel lib (rest_of ?p) = Inr ?g"
    using good_panel_typed [of "rest_of ?p" lib] assms(3) by (simp add: member_rest_of)
  have r: "TicketResult lib ?p tr = Inr (CompareView ?b ?g)"
    using assms(1) b g by (simp add: TicketResult_def Let_def compare_view_def)
  have "renderable (CompareView ?b ?g)"
    using list_or_absent_items [OF assms(2)] list_or_absent_items [OF assms(3)]
    by (simp add: renderable_def valid_JSON_stringify)
  with r have c: "commit lib ?p tr = Inr (CompareView ?b ?g)"
    by (simp add: commit_def)
  have "JSON_stringify lib JUndefined = JUndefined"
    by (simp add: JSON_stringify_def)
  with r c show ?thesis
    by (simp add: member_nullish)
qed

lemma members_example_compare:
  "member example_compare Mode = JStr (lit ''compare'')"
  "member example_compare Bad_approach = JUndefined"
  "member (member example_compare Good_approach) Benefits = JArr [JStr (lit ''typed'')]"
  "member (member example_compare Good_approach) Result
     = JObj [(lit ''category'', JStr (lit ''COMPLAINT''))]"
  by (simp_all add: example_compare_def lit_def)

theorem compare_renders_two_panels_witness:
  "\<forall>lib. commit lib example_compare JNull =
           Inr (CompareView
             \<lparr>p_json = JUndefined, p_items = Falsy JUndefined\<rparr>
             \<lparr>p_json = JStr (serialize_json lib (JObj [(lit ''category'', JStr (lit ''COMPLAINT''))])),
              p_items = Shown [JStr (lit ''typed'')]\<rparr>)"
proof
  fix lib
  obtain kvs where e: "example_compare = JObj kvs"
    by (simp add: example_compare_def)
  have h1: "member (JObj kvs) Mode = JStr (lit ''compare'')"
    using members_example_compare(1) by (simp only: e)
  have h2: "list_or_absent (member (member (JObj kvs) Bad_approach) Problems)"
    using members_example_compare(2) by (simp only: e) simp
  have h3: "list_or_absent (member (member (JObj kvs) Good_approach) Benefits)"
    using members_example_compare(3) by (simp only: e) simp
  from compare_renders_two_panels [OF h1 h2 h3, of lib JNull] members_example_compare
  show "commit lib example_compare JNull =
           Inr (CompareView
             \<lparr>p_json = JUndefined, p_items = Falsy JUndefined\<rparr>
             \<lparr>p_json = JStr (serialize_json lib (JObj [(lit ''category'', JStr (lit ''COMPLAINT''))])),
              p_items = Shown [JStr (lit ''typed'')]\<rparr>)"
    by (simp only: e) (simp add: JSON_stringify_def)
qed

subsection \<open>The success view\<close>














subsection \<open>The failure panel\<close>

lemma list_or_absent_mappable: "list_or_absent v \<Longrightarrow> mappable v"
  by (cases v) simp_all

lemma failure_view_explicit:
  "failure_view lib d =
     (if mappable (member d Validation_errors)
      then Inr (FailureView \<lparr>f_status = member d Status, f_error = member d Error,
                              f_validation = items_of (member d Validation_errors)\<rparr>)
      else Inl TypeError)"
  by (cases "member d Validation_errors")
     (simp_all add: failure_view_def Let_def map_li_def del: member.simps)

lemma failure_branch:
  assumes "member (JObj kvs) Mode \<noteq> JStr (lit ''compare'')"
    and "\<not> (truthy (member (JObj kvs) Success) \<and> truthy (member (JObj kvs) Result))"
  shows "TicketResult lib (JObj kvs) tr =
     (if mappable (member (JObj kvs) Validation_errors)
      then Inr (FailureView \<lparr>f_status = member (JObj kvs) Status,
                              f_error = member (JObj kvs) Error,
                              f_validation = items_of (member (JObj kvs) Validation_errors)\<rparr>)
      else Inl TypeError)"
proof -
  from assms have "TicketResult lib (JObj kvs) tr = failure_view lib (rest_of (JObj kvs))"
    by (auto simp add: TicketResult_def Let_def member_rest_of simp del: member.simps)
  then show ?thesis
    by (simp add: failure_view_explicit member_rest_of del: member.simps)
qed

lemma failure_branch_commit:
  assumes "member (JObj kvs) Mode \<noteq> JStr (lit ''compare'')"
    and "\<not> (truthy (member (JObj kvs) Success) \<and> truthy (member (JObj kvs) Result))"
    and "valid_child (member (JObj kvs) Status)"
    and "valid_child (member (JObj kvs) Error)"
    and "list_or_absent (member (JObj kvs) Validation_errors)"
  shows "commit lib (JObj kvs) tr =
     Inr (FailureView \<lparr>f_status = member (JObj kvs) Status,
                       f_error = member (JObj kvs) Error,
                       f_validation = items_of (member (JObj kvs) Validation_errors)\<rparr>)"
proof -
  from assms(5) have "mappable (member (JObj kvs) Validation_errors)"
    by (rule list_or_absent_mappable)
  with failure_branch [OF assms(1,2), of lib tr]
  have "TicketResult lib (JObj kvs) tr =
     Inr (FailureView \<lparr>f_status = member (JObj kvs) Status,
                       f_error = member (JObj kvs) Error,
                       f_validation = items_of (member (JObj kvs) Validation_errors)\<rparr>)"
    by (simp del: member.simps)
  with assms(3,4) list_or_absent_items [OF assms(5)] show ?thesis
    by (simp add: commit_def renderable_def del: member.simps)
qed

lemma members_example_failure:
  "member example_failure Mode = JStr (lit ''bad'')"
  "member example_failure Success = JBool False"
  "member example_failure Status = JStr (lit ''validation_failed'')"
  "member example_failure Error = JStr (lit ''missing field'')"
  "member example_failure Validation_errors = JArr [JStr (lit ''category required'')]"
  by (simp_all add: example_failure_def lit_def)

lemma members_example_object_errors:
  "member example_object_errors Mode = JStr (lit ''good'')"
  "member example_object_errors Success = JBool False"
  "member example_object_errors Status = JStr (lit ''validation_failed'')"
  "member example_object_errors Error = JStr (lit ''missing field'')"
  "member example_object_errors Validation_errors
     = JArr [JObj [(lit ''msg'', JStr (lit ''category required''))]]"
  by (simp_all add: example_object_errors_def lit_def)

text \<open>
  Claim C7, as stated, fails: every entry of a \<^verbatim>\<open>validation_errors\<close> list is rendered.
  The entries are placed in the items as they are, \<^verbatim>\<open><li>{err}</li>\<close> with
  \<^verbatim>\<open>err: string\<close>, and React throws on a child that is a plain object. A failure payload
  whose list holds the object \<^verbatim>\<open>{msg: 'category required'}\<close> reaches the failure panel,
  the component returns the panel with the entry in it, and the render is not committed:
  nothing is shown.
\<close>

theorem failure_object_entry_throws:
  "\<forall>lib. member example_object_errors Mode \<noteq> JStr (lit ''compare'')
       \<and> \<not> truthy (member example_object_errors Success)
       \<and> member example_object_errors Validation_errors
           = JArr [JObj [(lit ''msg'', JStr (lit ''category required''))]]
       \<and> TicketResult lib example_object_errors JNull =
           Inr (FailureView
             \<lparr>f_status = JStr (lit ''validation_failed''),
              f_error = JStr (lit ''missing field''),
              f_validation = Shown [JObj [(lit ''msg'', JStr (lit ''category required''))]]\<rparr>)
       \<and> commit lib example_object_errors JNull = Inl ReactChildError"
proof
  fix lib
  obtain kvs where e: "example_object_errors = JObj kvs"
    by (simp add: example_object_errors_def)
  have h1: "member (JObj kvs) Mode \<noteq> JStr (lit ''compare'')"
    using members_example_object_errors(1) by (simp only: e) (simp add: lit_def)
  have h2: "\<not> (truthy (member (JObj kvs) Success) \<and> truthy (member (JObj kvs) Result))"
    using members_example_object_errors(2) by (simp only: e) simp
  have t: "TicketResult lib example_object_errors JNull =
           Inr (FailureView
             \<lparr>f_status = JStr (lit ''validation_failed''),
              f_error = JStr (lit ''missing field''),
              f_validation = Shown [JObj [(lit ''msg'', JStr (lit ''category required''))]]\<rparr>)"
    using failure_branch [OF h1 h2, of lib JNull] members_example_object_errors(3,4,5)
    by (simp only: e) simp
  then have "commit lib example_object_errors JNull = Inl ReactChildError"
    by (simp add: commit_def renderable_def)
  with t h1 h2 members_example_object_errors(2,5)
  show "member example_object_errors Mode \<noteq> JStr (lit ''compare'')
       \<and> \<not> truthy (member example_object_errors Success)
       \<and> member example_object_errors Validation_errors
           = JArr [JObj [(lit ''msg'', JStr (lit ''category required''))]]
       \<and> TicketResult lib example_object_errors JNull =
           Inr (FailureView
             \<lparr>f_status = JStr (lit ''validation_failed''),
              f_error = JStr (lit ''missing field''),
              f_validation = Shown [JObj [(lit ''msg'', JStr (lit ''category required''))]]\<rparr>)
       \<and> commit lib example_object_errors JNull = Inl ReactChildError"
    by (simp only: e) simp
qed

text \<open>
  Claim C7, amended. For every payload that reaches the failure panel (the mode is not
  \<^verbatim>\<open>'compare'\<close>, and \<^verbatim>\<open>success\<close> is falsy or \<^verbatim>\<open>result\<close> is missing), whose
  \<^verbatim>\<open>validation_errors\<close> is a list of entries that can be shown (strings, as the source
  declares them, or other values that are not plain objects) and whose status and error can
  be shown, the render is committed and the panel shows the status, the error, and then one
  item for each entry of the list, in the order of the list.
\<close>

theorem failure_lists_validation_errors:
  assumes "member (JObj kvs) Mode \<noteq> JStr (lit ''compare'')"
    and "\<not> (truthy (member (JObj kvs) Success) \<and> truthy (member (JObj kvs) Result))"
    and "member (JObj kvs) Validation_errors = JArr xs"
    and "list_all valid_child xs"
    and "valid_child (member (JObj kvs) Status)"
    and "valid_child (member (JObj kvs) Error)"
  shows "commit lib (JObj kvs) tr =
           Inr (FailureView \<lparr>f_status = member (JObj kvs) Status,
                             f_error = member (JObj kvs) Error,
                             f_validation = Shown xs\<rparr>)
         \<and> TicketResult lib (JObj kvs) tr = commit lib (JObj kvs) tr
         \<and> children (FailureView \<lparr>f_status = member (JObj kvs) Status,
                                  f_error = member (JObj kvs) Error,
                                  f_validation = Shown xs\<rparr>)
             = member (JObj kvs) Status # member (JObj kvs) Error # xs"
proof -
  from assms(3,4) have l: "list_or_absent (member (JObj kvs) Validation_errors)"
    by simp
  from failure_branch_commit [OF assms(1,2,5,6) l, of lib tr] assms(3)
  have c: "commit lib (JObj kvs) tr =
           Inr (FailureView \<lparr>f_status = member (JObj kvs) Status,
                             f_error = member (JObj kvs) Error,
                             f_validation = Shown xs\<rparr>)"
    by (simp del: member.simps)
  from failure_branch [OF assms(1,2), of lib tr] assms(3)
  have "TicketResult lib (JObj kvs) tr =
           Inr (FailureView \<lparr>f_status = member (JObj kvs) Status,
                             f_error = member (JObj kvs) Error,
                             f_validation = Shown xs\<rparr>)"
    by (simp del: member.simps)
  with c show ?thesis
    by (simp del: member.simps)
qed

theorem failure_lists_validation_errors_witness:
  "\<forall>lib. commit lib example_failure JNull =
           Inr (FailureView \<lparr>f_status = JStr (lit ''validation_failed''),
                             f_error = JStr (lit ''missing field''),
                             f_validation = Shown [JStr (lit ''category required'')]\<rparr>)
       \<and> TicketResult lib example_failure JNull = commit lib example_failure JNull"
proof
  fix lib
  obtain kvs where e: "example_failure = JObj kvs"
    by (simp add: example_failure_def)
  have h1: "member (JObj kvs) Mode \<noteq> JStr (lit ''compare'')"
    using members_example_failure(1) by (simp only: e) (simp add: lit_def)
  have h2: "\<not> (truthy (member (JObj kvs) Success) \<and> truthy (member (JObj kvs) Result))"
    using members_example_failure(2) by (simp only: e) simp
  have h3: "member (JObj kvs) Validation_errors = JArr [JStr (lit ''category required'')]"
    using members_example_failure(5) by (simp only: e)
  have h4: "list_all valid_child [JStr (lit ''category required'')]"
    by simp
  have h5: "valid_child (member (JObj kvs) Status)"
    using members_example_failure(3) by (simp only: e) simp
  have h6: "valid_child (member (JObj kvs) Error)"
    using members_example_failure(4) by (simp only: e) simp
  from failure_lists_validation_errors [OF h1 h2 h3 h4 h5 h6, of lib JNull]
    members_example_failure(3,4)
  show "commit lib example_failure JNull =
           Inr (FailureView \<lparr>f_status = JStr (lit ''validation_failed''),
                             f_error = JStr (lit ''missing field''),
                             f_validation = Shown [JStr (lit ''category required'')]\<rparr>)
       \<and> TicketResult lib example_failure JNull = commit lib example_failure JNull"
    by (simp only: e)
qed

subsection \<open>The three branches\<close>

lemma truthy_member_base: "truthy (member v f) \<Longrightarrow> \<not> nullish v"
  by (cases v) simp_all

lemma map_li_explicit:
  "truthy v \<Longrightarrow> map_li v = (if mappable v then Inr (case v of JArr xs \<Rightarrow> xs) else Inl TypeError)"
  by (cases v) (simp_all add: map_li_def)

lemma bad_panel_explicit:
  "bad_panel lib d =
     (if mappable (member (member d Bad_approach) Problems)
      then Inr \<lparr>p_json = JSON_stringify lib (member (member d Bad_approach) Result),
                p_items = items_of (member (member d Bad_approach) Problems)\<rparr>
      else Inl TypeError)"
proof (cases "mappable (member (member d Bad_approach) Problems)")
  case True
  then have "list_or_absent (member (member d Bad_approach) Problems)
             \<or> (\<exists>xs. member (member d Bad_approach) Problems = JArr xs)"
    by (cases "member (member d Bad_approach) Problems") simp_all
  then show ?thesis
  proof
    assume "list_or_absent (member (member d Bad_approach) Problems)"
    with True show ?thesis by (simp add: bad_panel_typed del: member.simps)
  next
    assume "\<exists>xs. member (member d Bad_approach) Problems = JArr xs"
    then obtain xs where xs: "member (member d Bad_approach) Problems = JArr xs" ..
    then have "\<not> nullish (member d Bad_approach)"
      by (cases "member d Bad_approach") simp_all
    with xs show ?thesis
      by (simp add: bad_panel_def Let_def dot_def map_li_def del: member.simps)
  qed
next
  case False
  then have t: "truthy (member (member d Bad_approach) Problems)"
    by (cases "member (member d Bad_approach) Problems") simp_all
  then have "\<not> nullish (member d Bad_approach)"
    by (rule truthy_member_base)
  with t False show ?thesis
    by (simp add: bad_panel_def Let_def dot_def map_li_explicit del: member.simps)
qed

lemma good_panel_explicit:
  "good_panel lib d =
     (if mappable (member (member d Good_approach) Benefits)
      then Inr \<lparr>p_json = JSON_stringify lib (member (member d Good_approach) Result),
                p_items = items_of (member (member d Good_approach) Benefits)\<rparr>
      else Inl TypeError)"
proof (cases "mappable (member (member d Good_approach) Benefits)")
  case True
  then have "list_or_absent (member (member d Good_approach) Benefits)
             \<or> (\<exists>xs. member (member d Good_approach) Benefits = JArr xs)"
    by (cases "member (member d Good_approach) Benefits") simp_all
  then show ?thesis
  proof
    assume "list_or_absent (member (member d Good_approach) Benefits)"
    with True show ?thesis by (simp add: good_panel_typed del: member.simps)
  next
    assume "\<exists>xs. member (member d Good_approach) Benefits = JArr xs"
    then obtain xs where xs: "member (member d Good_approach) Benefits = JArr xs" ..
    then have "\<not> nullish (member d Good_approach)"
      by (cases "member d Good_approach") simp_all
    with xs show ?thesis
      by (simp add: good_panel_def Let_def dot_def map_li_def del: member.simps)
  qed
next
  case False
  then have t: "truthy (member (member d Good_approach) Benefits)"
    by (cases "member (member d Good_approach) Benefits") simp_all
  then have "\<not> nullish (member d Good_approach)"
    by (rule truthy_member_base)
  with t False show ?thesis
    by (simp add: good_panel_def Let_def dot_def map_li_explicit del: member.simps)
qed

lemma compare_branch:
  assumes "member (JObj kvs) Mode = JStr (lit ''compare'')"
  shows "TicketResult lib (JObj kvs) tr =
     (if mappable (member (member (JObj kvs) Bad_approach) Problems)
         \<and> mappable (member (member (JObj kvs) Good_approach) Benefits)
      then Inr (CompareView
             \<lparr>p_json = JSON_stringify lib (member (member (JObj kvs) Bad_approach) Result),
              p_items = items_of (member (member (JObj kvs) Bad_approach) Problems)\<rparr>
             \<lparr>p_json = JSON_stringify lib (member (member (JObj kvs) Good_approach) Result),
              p_items = items_of (member (member (JObj kvs) Good_approach) Benefits)\<rparr>)
      else Inl TypeError)"
proof -
  from assms have "TicketResult lib (JObj kvs) tr = compare_view lib (rest_of (JObj kvs))"
    by (simp add: TicketResult_def Let_def del: member.simps)
  then show ?thesis
    by (simp add: compare_view_def bad_panel_explicit good_panel_explicit member_rest_of
          del: member.simps)
qed

lemma compare_branch_commit:
  assumes "member (JObj kvs) Mode = JStr (lit ''compare'')"
    and "list_or_absent (member (member (JObj kvs) Bad_approach) Problems)"
    and "list_or_absent (member (member (JObj kvs) Good_approach) Benefits)"
  shows "commit lib (JObj kvs) tr =
      Inr (CompareView
             \<lparr>p_json = JSON_stringify lib (member (member (JObj kvs) Bad_approach) Result),
              p_items = items_of (member (member (JObj kvs) Bad_approach) Problems)\<rparr>
             \<lparr>p_json = JSON_stringify lib (member (member (JObj kvs) Good_approach) Result),
              p_items = items_of (member (member (JObj kvs) Good_approach) Benefits)\<rparr>)"
  using compare_branch [OF assms(1), of lib tr]
    list_or_absent_mappable [OF assms(2)] list_or_absent_mappable [OF assms(3)]
    list_or_absent_items [OF assms(2)] list_or_absent_items [OF assms(3)]
  by (simp add: commit_def renderable_def valid_JSON_stringify del: member.simps)

lemma success_branch:
  assumes "member (JObj kvs) Mode \<noteq> JStr (lit ''compare'')"
    and "truthy (member (JObj kvs) Success)"
    and "truthy (member (JObj kvs) Result)"
  shows "TicketResult lib (JObj kvs) tr =
     Inr (SuccessView
       \<lparr>s_unreliable = (member (JObj kvs) Mode = JStr (lit ''bad'')),
        s_duration = member (JObj kvs) Duration_ms,
        s_category = member (member (JObj kvs) Result) Category,
        s_urgency_class = urgency_class (member (member (JObj kvs) Result) Urgency),
        s_urgency = member (member (JObj kvs) Result) Urgency,
        s_product = member (member (JObj kvs) Result) Product,
        s_confidence =
          toFixed0 lib (js_times (ToNumber lib (member (member (JObj kvs) Result) Confidence))
                                 (Fin 100)),
        s_summary = member (member (JObj kvs) Result) Summary,
        s_suggested = (if truthy (member (member (JObj kvs) Result) Suggested_action)
                       then Shown (member (member (JObj kvs) Result) Suggested_action)
                       else Falsy (member (member (JObj kvs) Result) Suggested_action)),
        s_trace = (if truthy (member (JObj kvs) Trace_id)
                   then Shown (member (JObj kvs) Trace_id,
                               lit ''https://cloud.langfuse.com/trace/''
                                 @ ToString lib (member (JObj kvs) Trace_id))
                   else Falsy (member (JObj kvs) Trace_id)),
        s_raw = JSON_stringify lib (member (JObj kvs) Result)\<rparr>)"
proof -
  from assms(3) have nn: "\<not> nullish (member (JObj kvs) Result)"
    by (rule truthy_not_nullish)
  from assms have "TicketResult lib (JObj kvs) tr =
      success_view lib (member (JObj kvs) Mode) (rest_of (JObj kvs))"
    by (simp add: TicketResult_def Let_def member_rest_of del: member.simps)
  with nn show ?thesis
    by (simp add: success_view_def Let_def member_rest_of confidence_text_def
          del: member.simps)
qed

text \<open>
  Claim C2. For every payload (an object), the renderer takes one branch, in this order of
  precedence. When \<^verbatim>\<open>mode\<close> is \<^verbatim>\<open>'compare'\<close> it returns the comparison: two panels, each
  with the JSON text of the approach's result and the items of its list. Otherwise, when
  \<^verbatim>\<open>success\<close> is truthy and \<^verbatim>\<open>result\<close> is present, it returns the success view with
  every field of it taken from the payload. Otherwise it returns the failure panel with the
  status, the error, and the items of \<^verbatim>\<open>validation_errors\<close> when that is a list (the
  falsy value itself when there is none). In the first and the last branch a list field
  that is truthy and not an array makes \<^verbatim>\<open>.map\<close> throw. In each branch, when the values
  placed in the view can be shown, React commits exactly that view. The output depends on
  the payload alone, not on the component's state.
\<close>

theorem three_way_dispatch:
  "(let p = JObj kvs;
        md = member p Mode; r = member p Result; tid = member p Trace_id;
        ve = member p Validation_errors;
        ps = member (member p Bad_approach) Problems;
        bs = member (member p Good_approach) Benefits;
        cv = CompareView
               \<lparr>p_json = JSON_stringify lib (member (member p Bad_approach) Result),
                p_items = items_of ps\<rparr>
               \<lparr>p_json = JSON_stringify lib (member (member p Good_approach) Result),
                p_items = items_of bs\<rparr>;
        sv = SuccessView
               \<lparr>s_unreliable = (md = JStr (lit ''bad'')),
                s_duration = member p Duration_ms,
                s_category = member r Category,
                s_urgency_class = urgency_class (member r Urgency),
                s_urgency = member r Urgency,
                s_product = member r Product,
                s_confidence = toFixed0 lib (js_times (ToNumber lib (member r Confidence)) (Fin 100)),
                s_summary = member r Summary,
                s_suggested = (if truthy (member r Suggested_action)
                               then Shown (member r Suggested_action)
                               else Falsy (member r Suggested_action)),
                s_trace = (if truthy tid
                           then Shown (tid, lit ''https://cloud.langfuse.com/trace/'' @ ToString lib tid)
                           else Falsy tid),
                s_raw = JSON_stringify lib r\<rparr>;
        fv = FailureView \<lparr>f_status = member p Status, f_error = member p Error,
                          f_validation = items_of ve\<rparr>
    in TicketResult lib p tr =
         (if md = JStr (lit ''compare'')
            then (if mappable ps \<and> mappable bs then Inr cv else Inl TypeError)
          else if truthy (member p Success) \<and> truthy r
            then Inr sv
          else (if mappable ve then Inr fv else Inl TypeError))
       \<and> (if md = JStr (lit ''compare'')
            then (if list_or_absent ps \<and> list_or_absent bs
                  then commit lib p tr = Inr cv else True)
          else if truthy (member p Success) \<and> truthy r
            then (if list_all valid_child
                       [member p Duration_ms, member r Category, member r Urgency,
                        member r Product, member r Summary, member r Suggested_action, tid]
                  then commit lib p tr = Inr sv else True)
          else (if valid_child (member p Status) \<and> valid_child (member p Error)
                     \<and> list_or_absent ve
                then commit lib p tr = Inr fv else True))
       \<and> TicketResult lib p tr = TicketResult lib p tr'
       \<and> commit lib p tr = commit lib p tr')"
proof -
  have indep: "TicketResult lib (JObj kvs) tr = TicketResult lib (JObj kvs) tr'"
    by (simp add: TicketResult_def)
  then have indep_c: "commit lib (JObj kvs) tr = commit lib (JObj kvs) tr'"
    by (simp add: commit_def)
  show ?thesis
  proof (cases "member (JObj kvs) Mode = JStr (lit ''compare'')")
    case True
    with compare_branch [OF True, of lib tr] compare_branch_commit [OF True, of lib tr]
      indep indep_c
    show ?thesis
      by (simp add: Let_def del: member.simps)
  next
    case nc: False
    show ?thesis
    proof (cases "truthy (member (JObj kvs) Success) \<and> truthy (member (JObj kvs) Result)")
      case True
      then have s: "truthy (member (JObj kvs) Success)" and r: "truthy (member (JObj kvs) Result)"
        by simp_all
      note t = success_branch [OF nc s r, of lib tr]
      have "commit lib (JObj kvs) tr = TicketResult lib (JObj kvs) tr"
        if "list_all valid_child
              [member (JObj kvs) Duration_ms, member (member (JObj kvs) Result) Category,
               member (member (JObj kvs) Result) Urgency,
               member (member (JObj kvs) Result) Product,
               member (member (JObj kvs) Result) Summary,
               member (member (JObj kvs) Result) Suggested_action,
               member (JObj kvs) Trace_id]"
        using that
        by (simp add: commit_def t renderable_def valid_JSON_stringify del: member.simps)
      with t nc True indep indep_c show ?thesis
        by (simp add: Let_def del: member.simps)
    next
      case False
      with failure_branch [OF nc False, of lib tr]
        failure_branch_commit [OF nc False, of lib tr] nc indep indep_c
      show ?thesis
        by (auto simp add: Let_def simp del: member.simps)
    qed
  qed
qed

text \<open>
  The witness: the object the handler builds for a failed request, in compare mode and in
  good mode, and the failure of the example. The first is shown as a comparison with two
  empty panels, since the mode is looked at first; the second as the failure panel with the
  message; the third as the failure panel with its list.
\<close>

theorem three_way_dispatch_witness:
  "\<forall>lib. commit lib (error_payload (lit ''Network Error'') Compare) JNull =
            Inr (CompareView \<lparr>p_json = JUndefined, p_items = Falsy JUndefined\<rparr>
                             \<lparr>p_json = JUndefined, p_items = Falsy JUndefined\<rparr>)
       \<and> commit lib (error_payload (lit ''Network Error'') Good) JNull =
            Inr (FailureView \<lparr>f_status = JUndefined, f_error = JStr (lit ''Network Error''),
                              f_validation = Falsy JUndefined\<rparr>)
       \<and> commit lib example_failure JNull =
            Inr (FailureView \<lparr>f_status = JStr (lit ''validation_failed''),
                              f_error = JStr (lit ''missing field''),
                              f_validation = Shown [JStr (lit ''category required'')]\<rparr>)"
proof
  fix lib
  let ?msg = "lit ''Network Error''"
  have c: "member (error_payload ?msg Compare) f =
             (if f = Error then JStr ?msg else if f = Mode then JStr (lit ''compare'') else JUndefined)"
    for f
    unfolding error_payload_def by (cases f) (simp_all add: lit_def)
  have g: "member (error_payload ?msg Good) f =
             (if f = Error then JStr ?msg else if f = Mode then JStr (lit ''good'') else JUndefined)"
    for f
    unfolding error_payload_def by (cases f) (simp_all add: lit_def)
  have ne: "lit ''good'' \<noteq> lit ''compare''"
    by (simp add: lit_def)
  obtain kc where kc: "error_payload ?msg Compare = JObj kc"
    by (simp add: error_payload_def)
  obtain kg where kg: "error_payload ?msg Good = JObj kg"
    by (simp add: error_payload_def)
  obtain kf where kf: "example_failure = JObj kf"
    by (simp add: example_failure_def)
  have nf: "lit ''bad'' \<noteq> lit ''compare''"
    by (simp add: lit_def)
  have 1: "commit lib (error_payload ?msg Compare) JNull =
            Inr (CompareView \<lparr>p_json = JUndefined, p_items = Falsy JUndefined\<rparr>
                             \<lparr>p_json = JUndefined, p_items = Falsy JUndefined\<rparr>)"
    using three_way_dispatch [of kc lib JNull JNull]
    by (simp only: kc [symmetric] c Let_def) (simp add: JSON_stringify_def)
  have 2: "commit lib (error_payload ?msg Good) JNull =
            Inr (FailureView \<lparr>f_status = JUndefined, f_error = JStr ?msg,
                              f_validation = Falsy JUndefined\<rparr>)"
    using three_way_dispatch [of kg lib JNull JNull]
    by (simp only: kg [symmetric] g Let_def) (simp add: ne)
  have 3: "commit lib example_failure JNull =
            Inr (FailureView \<lparr>f_status = JStr (lit ''validation_failed''),
                              f_error = JStr (lit ''missing field''),
                              f_validation = Shown [JStr (lit ''category required'')]\<rparr>)"
    using three_way_dispatch [of kf lib JNull JNull]
    by (simp only: kf [symmetric] members_example_failure Let_def) (simp add: nf)
  from 1 2 3 show "commit lib (error_payload ?msg Compare) JNull =
            Inr (CompareView \<lparr>p_json = JUndefined, p_items = Falsy JUndefined\<rparr>
                             \<lparr>p_json = JUndefined, p_items = Falsy JUndefined\<rparr>)
       \<and> commit lib (error_payload ?msg Good) JNull =
            Inr (FailureView \<lparr>f_status = JUndefined, f_error = JStr ?msg,
                              f_validation = Falsy JUndefined\<rparr>)
       \<and> commit lib example_failure JNull =
            Inr (FailureView \<lparr>f_status = JStr (lit ''validation_failed''),
                              f_error = JStr (lit ''missing field''),
                              f_validation = Shown [JStr (lit ''category required'')]\<rparr>)"
    by simp
qed

section \<open>The trace fetch\<close>

lemma same_dep_strings: "same_dep (JStr a) (JStr b) \<longleftrightarrow> a = b"
  by (auto simp: same_dep_def)

lemma members_traced_failure:
  "member (traced_failure t) Mode = JStr (lit ''good'')"
  "member (traced_failure t) Success = JBool False"
  "member (traced_failure t) Trace_id = JStr (lit t)"
  "member (traced_failure t) Validation_errors = JUndefined"
  "member (traced_failure t) Status = JUndefined"
  "member (traced_failure t) Error = JUndefined"
  by (simp_all add: traced_failure_def, simp_all add: lit_def)

lemma commit_traced_failure:
  "commit lib (traced_failure t) tr =
     Inr (FailureView \<lparr>f_status = JUndefined, f_error = JUndefined,
                       f_validation = Falsy JUndefined\<rparr>)"
proof -
  obtain kvs where e: "traced_failure t = JObj kvs"
    by (simp add: traced_failure_def)
  have "member (JObj kvs) Mode \<noteq> JStr (lit ''compare'')"
    using members_traced_failure(1) [of t] by (simp only: e) (simp add: lit_def)
  moreover have "\<not> truthy (member (JObj kvs) Success)"
    using members_traced_failure(2) [of t] by (simp only: e) simp
  ultimately have "TicketResult lib (JObj kvs) tr = failure_view lib (rest_of (JObj kvs))"
    by (simp add: TicketResult_def Let_def member_rest_of del: member.simps)
  moreover have "member (JObj kvs) Validation_errors = JUndefined"
    "member (JObj kvs) Status = JUndefined" "member (JObj kvs) Error = JUndefined"
    using members_traced_failure(4,5,6) [of t] by (simp_all only: e)
  ultimately have "TicketResult lib (JObj kvs) tr =
     Inr (FailureView \<lparr>f_status = JUndefined, f_error = JUndefined,
                       f_validation = Falsy JUndefined\<rparr>)"
    by (simp add: failure_view_def member_rest_of del: member.simps)
  then show ?thesis
    by (simp add: commit_def renderable_def e)
qed

lemma fetch_traced_failure:
  "fetch_trace api lib (traced_failure t) = [api @ lit ''/api/trace/'' @ lit t]"
  "effect_dep (traced_failure t) = JStr (lit t)"
  if "t \<noteq> []"
  using that members_traced_failure(3) [of t]
  by (simp_all add: fetch_trace_def effect_dep_def lit_def del: member.simps)

text \<open>
  Claim C8, as stated, fails: one GET per distinct trace id. The component fetches whenever
  the trace id differs from the one of the previous render and keeps no record of the ids it
  has fetched. Three results in a row with the trace ids \<^verbatim>\<open>t1\<close>, \<^verbatim>\<open>t2\<close>, \<^verbatim>\<open>t1\<close> make
  three requests, two of them for \<^verbatim>\<open>t1\<close>.
\<close>

theorem trace_refetched_after_change:
  "\<forall>lib. (case rrun (lit ''http://localhost:8000'') lib
                 (mount (lit ''http://localhost:8000'') lib (traced_failure ''t1''))
                 [NewResult (traced_failure ''t2''), NewResult (traced_failure ''t1'')] of
            Inl e \<Rightarrow> None
          | Inr s \<Rightarrow> Some (requested s))
         = Some [lit ''http://localhost:8000/api/trace/t1'',
                 lit ''http://localhost:8000/api/trace/t2'',
                 lit ''http://localhost:8000/api/trace/t1'']"
proof
  fix lib
  have ne: "lit ''t1'' \<noteq> lit ''t2''"
    by (simp add: lit_def)
  show "(case rrun (lit ''http://localhost:8000'') lib
                 (mount (lit ''http://localhost:8000'') lib (traced_failure ''t1''))
                 [NewResult (traced_failure ''t2''), NewResult (traced_failure ''t1'')] of
            Inl e \<Rightarrow> None
          | Inr s \<Rightarrow> Some (requested s))
         = Some [lit ''http://localhost:8000/api/trace/t1'',
                 lit ''http://localhost:8000/api/trace/t2'',
                 lit ''http://localhost:8000/api/trace/t1'']"
    by (simp add: mount_def commit_traced_failure fetch_traced_failure same_dep_strings ne
          Let_def lit_def)
qed

text \<open>
  Claim C8, amended. A GET to \<^verbatim>\<open>/api/trace/{trace_id}\<close> is issued by the first render of a
  result with a non-empty trace id, and by each later render with a new result whose
  non-empty trace id differs from the trace id of the render before (two strings differ when
  they are not equal); no other render (the same result again, or the one after the trace
  arrived) issues a request. When the fetch fails, the message goes to the console and the
  request leaves the list of those awaited; nothing else changes: no new request, the same
  prop, the same state, hence the same output.
\<close>

theorem trace_fetch_on_change:
  "(\<forall>s'. rstep api lib s (NewResult r) = Inr s' \<longrightarrow>
      requested s' = requested s @
        (if truthy (member r Trace_id) \<and> \<not> same_dep (last_dep s) (member r Trace_id)
         then [api @ lit ''/api/trace/'' @ ToString lib (member r Trace_id)] else [])
      \<and> last_dep s' = member r Trace_id)
   \<and> (\<forall>s'. rstep api lib s Rerender = Inr s' \<longrightarrow> s' = s)
   \<and> (\<forall>s'. rstep api lib s (TraceFulfilled i d) = Inr s' \<longrightarrow>
         requested s' = requested s \<and> last_dep s' = last_dep s \<and> props s' = props s
         \<and> TicketResult lib (props s') (trace_state s') = TicketResult lib (props s) (trace_state s))
   \<and> rstep api lib s (TraceRejected i msg) =
       Inr (if i < length (awaiting s)
            then s\<lparr>awaiting := take i (awaiting s) @ drop (Suc i) (awaiting s),
                   console := console s @ [msg]\<rparr>
            else s)
   \<and> (\<forall>s0. mount api lib r = Inr s0 \<longrightarrow>
         requested s0 =
           (if truthy (member r Trace_id)
            then [api @ lit ''/api/trace/'' @ ToString lib (member r Trace_id)] else [])
         \<and> last_dep s0 = member r Trace_id)
   \<and> (same_dep (JStr a) (JStr b) \<longleftrightarrow> a = b)"
proof -
  have new: "requested s' = requested s @
        (if truthy (member r Trace_id) \<and> \<not> same_dep (last_dep s) (member r Trace_id)
         then [api @ lit ''/api/trace/'' @ ToString lib (member r Trace_id)] else [])
      \<and> last_dep s' = member r Trace_id"
    if "rstep api lib s (NewResult r) = Inr s'" for s'
    using that
    by (cases "commit lib r (trace_state s)")
       (auto simp: Let_def fetch_trace_def effect_dep_def simp del: member.simps)
  have re: "s' = s" if "rstep api lib s Rerender = Inr s'" for s'
    using that by (cases "commit lib (props s) (trace_state s)") auto
  have ful: "requested s' = requested s \<and> last_dep s' = last_dep s \<and> props s' = props s
         \<and> TicketResult lib (props s') (trace_state s') = TicketResult lib (props s) (trace_state s)"
    if "rstep api lib s (TraceFulfilled i d) = Inr s'" for s'
    using that
    by (cases "commit lib (props s) d")
       (auto simp: TicketResult_def split: if_splits)
  have rej: "rstep api lib s (TraceRejected i msg) =
       Inr (if i < length (awaiting s)
            then s\<lparr>awaiting := take i (awaiting s) @ drop (Suc i) (awaiting s),
                   console := console s @ [msg]\<rparr>
            else s)"
    by simp
  have mnt: "requested s0 =
           (if truthy (member r Trace_id)
            then [api @ lit ''/api/trace/'' @ ToString lib (member r Trace_id)] else [])
         \<and> last_dep s0 = member r Trace_id"
    if "mount api lib r = Inr s0" for s0
    using that
    by (cases "commit lib r JNull")
       (auto simp: mount_def fetch_trace_def effect_dep_def simp del: member.simps)
  from new re ful rej mnt same_dep_strings show ?thesis
    by blast
qed

text \<open>
  The witness: a result with the trace id \<^verbatim>\<open>t1\<close> is mounted, a new result with the same
  trace id arrives, the component renders once more, and the fetch fails. One request was
  made, and the failure is on the console.
\<close>

theorem trace_fetch_on_change_witness:
  "\<forall>lib. rrun (lit ''http://localhost:8000'') lib
            (mount (lit ''http://localhost:8000'') lib (traced_failure ''t1''))
            [NewResult (traced_failure ''t1''), Rerender, TraceRejected 0 (lit ''Network Error'')]
         = Inr \<lparr>props = traced_failure ''t1'', last_dep = JStr (lit ''t1''), trace_state = JNull,
                requested = [lit ''http://localhost:8000/api/trace/t1''],
                awaiting = [], console = [lit ''Network Error'']\<rparr>"
proof
  fix lib
  let ?api = "lit ''http://localhost:8000''"
  let ?s0 = "\<lparr>props = traced_failure ''t1'', last_dep = JStr (lit ''t1''), trace_state = JNull,
                requested = [?api @ lit ''/api/trace/'' @ lit ''t1''],
                awaiting = [?api @ lit ''/api/trace/'' @ lit ''t1''], console = []\<rparr>"
  have m: "mount ?api lib (traced_failure ''t1'') = Inr ?s0"
    by (simp add: mount_def commit_traced_failure fetch_traced_failure)
  have n: "rstep ?api lib ?s0 (NewResult (traced_failure ''t1'')) = Inr ?s0"
    by (simp add: commit_traced_failure fetch_traced_failure same_dep_strings Let_def)
  have r: "rstep ?api lib ?s0 Rerender = Inr ?s0"
    by (simp add: commit_traced_failure)
  note t = trace_fetch_on_change [of ?api lib ?s0 "traced_failure ''t1''" 0 JNull
             "lit ''Network Error''" "lit ''t1''" "lit ''t1''"]
  from t have "rstep ?api lib ?s0 (TraceRejected 0 (lit ''Network Error'')) =
                 Inr (?s0\<lparr>awaiting := [], console := [lit ''Network Error'']\<rparr>)"
    by simp
  with m n r show "rrun ?api lib (mount ?api lib (traced_failure ''t1''))
            [NewResult (traced_failure ''t1''), Rerender, TraceRejected 0 (lit ''Network Error'')]
         = Inr \<lparr>props = traced_failure ''t1'', last_dep = JStr (lit ''t1''), trace_state = JNull,
                requested = [lit ''http://localhost:8000/api/trace/t1''],
                awaiting = [], console = [lit ''Network Error'']\<rparr>"
    by (simp add: lit_def)
qed



end
